theory Spec2Isabelle
  imports Main
begin

section \<open>Python values and strings\<close>

text \<open>
  The recommendation pipeline of \<^verbatim>\<open>app.py\<close> handles values of three kinds:
  \<^verbatim>\<open>None\<close>, strings, and whatever else a decoded JSON document or a search
  result record may hold. The code only ever asks three things of such a value: whether
  it is a string, whether it is truthy, and how an f-string renders it. A value that is
  neither \<^verbatim>\<open>None\<close> nor a string is therefore kept as its truth value
  and its \<^verbatim>\<open>str()\<close> rendering.
  Strings are lists of characters with code points below 256.
\<close>

datatype pyval = PNone | PStr string | POther bool string

datatype py_error = TypeError | AttributeError | RecursionError

type_synonym pydict = "string \<rightharpoonup> pyval"

fun truthy :: "pyval \<Rightarrow> bool" where
  "truthy PNone = False"
| "truthy (PStr s) = (s \<noteq> [])"
| "truthy (POther b r) = b"

fun py_str :: "pyval \<Rightarrow> string" where
  "py_str PNone = ''None''"
| "py_str (PStr s) = s"
| "py_str (POther b r) = r"

fun is_str :: "pyval \<Rightarrow> bool" where
  "is_str (PStr s) = True"
| "is_str v = False"

text \<open>\<^verbatim>\<open>d.get(k)\<close> and \<^verbatim>\<open>d.get(k, default)\<close>.\<close>

definition dict_get :: "pydict \<Rightarrow> string \<Rightarrow> pyval \<Rightarrow> pyval" where
  "dict_get d k dflt = (case d k of None \<Rightarrow> dflt | Some v \<Rightarrow> v)"

text \<open>
  \<^verbatim>\<open>str.isspace\<close> on code points below 256: tab, line feed, vertical tab, form
  feed, carriage return, the four separators 0x1c..0x1f, space, NEL (0x85) and the
  no-break space (0xa0).
\<close>

definition is_space :: "char \<Rightarrow> bool" where
  "is_space c = (let n = (of_char c :: nat) in
     (9 \<le> n \<and> n \<le> 13) \<or> (28 \<le> n \<and> n \<le> 32) \<or> n = 133 \<or> n = 160)"

text \<open>\<^verbatim>\<open>s.strip()\<close>: whitespace removed at both ends.\<close>

definition strip :: "string \<Rightarrow> string" where
  "strip s = rev (dropWhile is_space (rev (dropWhile is_space s)))"

text \<open>
  \<^verbatim>\<open>s.split()\<close> with no separator: the maximal runs of non-whitespace
  characters, in order; no empty token.
\<close>

function split_ws :: "string \<Rightarrow> string list" where
  "split_ws [] = []"
| "split_ws (c # cs) =
     (if is_space c then split_ws cs
      else takeWhile (\<lambda>x. \<not> is_space x) (c # cs)
             # split_ws (dropWhile (\<lambda>x. \<not> is_space x) cs))"
  by pat_completeness auto
termination
  by (relation "measure length") (auto simp: less_Suc_eq_le length_dropWhile_le)

text \<open>\<^verbatim>\<open>sep.join(xs)\<close> on a list of strings.\<close>

fun join :: "string \<Rightarrow> string list \<Rightarrow> string" where
  "join sep [] = []"
| "join sep [x] = x"
| "join sep (x # y # ys) = x @ sep @ join sep (y # ys)"

text \<open>
  \<^verbatim>\<open>sep.join(xs)\<close> on a list of arbitrary values raises
  \<^verbatim>\<open>TypeError\<close> as soon as one item is not a string.
\<close>

definition join_values :: "string \<Rightarrow> pyval list \<Rightarrow> py_error + string" where
  "join_values sep vs =
     (if list_all is_str vs then Inr (join sep (map py_str vs)) else Inl TypeError)"

text \<open>\<^verbatim>\<open>s.startswith(p)\<close>.\<close>

definition startswith :: "string \<Rightarrow> string \<Rightarrow> bool" where
  "startswith s p = (take (length p) s = p)"

section \<open>Query Builder\<close>

text \<open>
  \<^verbatim>\<open>
  def construct_query(prefs):
      return " ".join(filter(None, [
          prefs.get('color'),
          prefs.get('style'),
          prefs.get('type'),
          f"for {prefs.get('occasion')}" if prefs.get('occasion') else "",
          prefs.get('gender')
      ])).strip()
  \<close>
  \<^verbatim>\<open>filter(None, xs)\<close> keeps the truthy items.
\<close>

definition construct_query :: "pydict \<Rightarrow> py_error + string" where
  "construct_query prefs =
     (case join_values '' ''
        (filter truthy
          [dict_get prefs ''color'' PNone,
           dict_get prefs ''style'' PNone,
           dict_get prefs ''type'' PNone,
           (if truthy (dict_get prefs ''occasion'' PNone)
            then PStr (''for '' @ py_str (dict_get prefs ''occasion'' PNone))
            else PStr ''''),
           dict_get prefs ''gender'' PNone]) of
        Inl e \<Rightarrow> Inl e
      | Inr s \<Rightarrow> Inr (strip s))"

section \<open>Text Generation Client\<close>

text \<open>
  The text-generation service is a collaborator of the pipeline and a parameter of the
  model. A call of \<^verbatim>\<open>model.generate_content\<close> either raises or returns a
  response; of a response the code reads \<^verbatim>\<open>response.candidates\<close> (only its
  truth value: whether there is a candidate) and \<^verbatim>\<open>response.text\<close>, an
  accessor that raises when the response carries no text. \<open>GenResponse n t\<close>
  is a response with \<open>n\<close> candidates whose text accessor returns \<open>t\<close>, or raises
  when \<open>t\<close> is \<open>None\<close>. \<open>GenRaises\<close> stands for any exception raised
  inside the \<^verbatim>\<open>try\<close> block before the response is there.
\<close>

datatype harm_category =
  HARM_CATEGORY_HARASSMENT | HARM_CATEGORY_HATE_SPEECH
| HARM_CATEGORY_SEXUALLY_EXPLICIT | HARM_CATEGORY_DANGEROUS_CONTENT

datatype harm_block_threshold = BLOCK_MEDIUM_AND_ABOVE

record gen_request =
  prompt :: string
  max_output_tokens :: "nat option"
  temperature_percent :: "nat option"
  safety_settings :: "(harm_category \<times> harm_block_threshold) list"

datatype gen_outcome = GenRaises | GenResponse nat "string option"

type_synonym text_service = "gen_request \<Rightarrow> gen_outcome"

text \<open>A call with the prompt alone, as \<^verbatim>\<open>model.generate_content(prompt)\<close>.\<close>

definition plain_request :: "string \<Rightarrow> gen_request" where
  "plain_request p =
     \<lparr>prompt = p, max_output_tokens = None, temperature_percent = None,
      safety_settings = []\<rparr>"

text \<open>
  \<^verbatim>\<open>
  def refine_query_gemini(raw_query):
      try:
          model = genai.GenerativeModel('gemini-1.5-flash-latest')
          prompt = f"Refine the following fashion query for concise image search (max 8 keywords). Output ONLY the refined query: \"{raw_query}\""
          response = model.generate_content(prompt,
              generation_config=genai.types.GenerationConfig(max_output_tokens=60, temperature=0.5),
              safety_settings={...: HarmBlockThreshold.BLOCK_MEDIUM_AND_ABOVE, ...})
          if not response.candidates:
              return raw_query
          refined = response.text.strip()
          return " ".join(refined.split()[:8]) or raw_query
      except Exception as e:
          logger.error(f"Gemini refinement failed: {e}")
          return raw_query
  \<close>
\<close>

definition refine_request :: "string \<Rightarrow> gen_request" where
  "refine_request raw_query =
     \<lparr>prompt =
        ''Refine the following fashion query for concise image search (max 8 keywords). Output ONLY the refined query: ''
          @ [CHR 0x22] @ raw_query @ [CHR 0x22],
      max_output_tokens = Some 60, temperature_percent = Some 50,
      safety_settings =
        [(HARM_CATEGORY_HARASSMENT, BLOCK_MEDIUM_AND_ABOVE),
         (HARM_CATEGORY_HATE_SPEECH, BLOCK_MEDIUM_AND_ABOVE),
         (HARM_CATEGORY_SEXUALLY_EXPLICIT, BLOCK_MEDIUM_AND_ABOVE),
         (HARM_CATEGORY_DANGEROUS_CONTENT, BLOCK_MEDIUM_AND_ABOVE)]\<rparr>"

definition refine_query_gemini :: "text_service \<Rightarrow> string \<Rightarrow> string" where
  "refine_query_gemini gen raw_query =
     (case gen (refine_request raw_query) of
        GenRaises \<Rightarrow> raw_query
      | GenResponse candidates response_text \<Rightarrow>
          if candidates = 0 then raw_query
          else (case response_text of
                  None \<Rightarrow> raw_query
                | Some t \<Rightarrow>
                    (let refined = strip t;
                         joined = join '' '' (take 8 (split_ws refined))
                     in if joined \<noteq> [] then joined else raw_query)))"

text \<open>
  \<^verbatim>\<open>
  def generate_description(prefs):
      try:
          model = genai.GenerativeModel('gemini-1.5-flash-latest')
          prompt = (
              f"Generate a 4-5 line fashion description based on the following preferences:\n"
              f"Color: {prefs.get('color', 'any')}, Gender: {prefs.get('gender', 'any')}, "
              f"Type: {prefs.get('type', 'any')}, Occasion: {prefs.get('occasion', 'any')}, Style: {prefs.get('style', 'any')}.\n"
              "Write a friendly paragraph, no bullets."
          )
          response = model.generate_content(prompt)
          return response.text.strip() if response.candidates else "A stylish look for your preferences."
      except Exception as e:
          logger.error(f"Failed to generate description: {e}")
          return "A stylish look for your preferences."
  \<close>
\<close>

definition description_fallback :: string where
  "description_fallback = ''A stylish look for your preferences.''"

definition description_prompt :: "pydict \<Rightarrow> string" where
  "description_prompt prefs =
     ''Generate a 4-5 line fashion description based on the following preferences:\<newline>''
     @ ''Color: '' @ py_str (dict_get prefs ''color'' (PStr ''any''))
     @ '', Gender: '' @ py_str (dict_get prefs ''gender'' (PStr ''any'')) @ '', ''
     @ ''Type: '' @ py_str (dict_get prefs ''type'' (PStr ''any''))
     @ '', Occasion: '' @ py_str (dict_get prefs ''occasion'' (PStr ''any''))
     @ '', Style: '' @ py_str (dict_get prefs ''style'' (PStr ''any'')) @ ''.\<newline>''
     @ ''Write a friendly paragraph, no bullets.''"

definition generate_description :: "text_service \<Rightarrow> pydict \<Rightarrow> string" where
  "generate_description gen prefs =
     (case gen (plain_request (description_prompt prefs)) of
        GenRaises \<Rightarrow> description_fallback
      | GenResponse candidates response_text \<Rightarrow>
          if candidates \<noteq> 0
          then (case response_text of
                  None \<Rightarrow> description_fallback
                | Some t \<Rightarrow> strip t)
          else description_fallback)"

text \<open>
  \<^verbatim>\<open>
  def generate_accessories(outfit_desc, gender, items):
      prompt = (
          f"Suggest fashionable matching accessories for this outfit:\n"
          f"Outfit: {outfit_desc}\n"
          f"Gender: {gender}\n"
          f"Requested Accessories: {', '.join(items)}\n\n"
          "Write a friendly paragraph that recommends stylish matching accessories. "
          "Include why they go well with the outfit. Keep it elegant and fashion-focused."
      )
      try:
          model = genai.GenerativeModel('gemini-1.5-flash-latest')
          response = model.generate_content(prompt)
          return response.text.strip()
      except Exception as e:
          logger.error(f"Accessory generation failed: {e}")
          return "Some matching accessories to enhance your look beautifully!"
  \<close>
  The items come from \<^verbatim>\<open>request.form.getlist\<close> and are strings; the gender
  is a string in \<^verbatim>\<open>/recommend\<close> and any decoded JSON value in
  \<^verbatim>\<open>/accessories\<close>.
\<close>

definition accessories_fallback :: string where
  "accessories_fallback = ''Some matching accessories to enhance your look beautifully!''"

definition accessories_prompt :: "string \<Rightarrow> pyval \<Rightarrow> string list \<Rightarrow> string" where
  "accessories_prompt outfit_desc gender items =
     ''Suggest fashionable matching accessories for this outfit:\<newline>''
     @ ''Outfit: '' @ outfit_desc @ ''\<newline>''
     @ ''Gender: '' @ py_str gender @ ''\<newline>''
     @ ''Requested Accessories: '' @ join '', '' items @ ''\<newline>\<newline>''
     @ ''Write a friendly paragraph that recommends stylish matching accessories. ''
     @ ''Include why they go well with the outfit. Keep it elegant and fashion-focused.''"

definition generate_accessories ::
  "text_service \<Rightarrow> string \<Rightarrow> pyval \<Rightarrow> string list \<Rightarrow> string" where
  "generate_accessories gen outfit_desc gender items =
     (case gen (plain_request (accessories_prompt outfit_desc gender items)) of
        GenRaises \<Rightarrow> accessories_fallback
      | GenResponse candidates response_text \<Rightarrow>
          (case response_text of
             None \<Rightarrow> accessories_fallback
           | Some t \<Rightarrow> strip t))"

section \<open>Image Search Client\<close>

text \<open>
  The image-search service is the second collaborator. \<^verbatim>\<open>ddgs.images(...)\<close>
  hands back result records (dictionaries) one after the other; the sequence either
  runs out or an exception is raised, at the call itself (\<open>Raises\<close> at the head,
  which also stands for a failing \<^verbatim>\<open>DDGS()\<close>) or while the results are
  being read.
\<close>

record image_request =
  search_keywords :: string
  region :: string
  safesearch :: string
  layout :: string
  max_results :: int

datatype results = Exhausted | Raises | Yield pydict results

type_synonym image_service = "image_request \<Rightarrow> results"

definition images_request :: "string \<Rightarrow> int \<Rightarrow> image_request" where
  "images_request kw n =
     \<lparr>search_keywords = kw, region = ''wt-wt'', safesearch = ''moderate'',
      layout = ''square'', max_results = n\<rparr>"

definition get_placeholder_image :: string where
  "get_placeholder_image = ''https://via.placeholder.com/400x500.png?text=Image+Not+Found''"

text \<open>
  \<^verbatim>\<open>
  def scrape_duckduckgo_images(query, max_images=5):
      images = []
      try:
          with DDGS() as ddgs:
              results = ddgs.images(keywords=query, region="wt-wt", safesearch="moderate", layout="square", max_results=max_images * 2)
              for result in results:
                  image_url = result.get("image")
                  if isinstance(image_url, str) and image_url.startswith("http"):
                      images.append(image_url)
                  if len(images) >= max_images:
                      break
          return images if images else [get_placeholder_image()] * max_images
      except Exception as e:
          logger.error(f"Image scraping failed: {e}")
          return [get_placeholder_image()] * max_images
  \<close>
  \<open>valid_image\<close> is the test of the \<^verbatim>\<open>if\<close>; \<open>scrape_loop\<close> is the
  \<^verbatim>\<open>for\<close> loop, \<open>None\<close> when an exception leaves it.
  \<^verbatim>\<open>[x] * n\<close> is the empty list for a negative \<open>n\<close>.
\<close>

fun valid_image :: "pyval \<Rightarrow> bool" where
  "valid_image (PStr u) = startswith u ''http''"
| "valid_image v = False"

fun scrape_loop :: "int \<Rightarrow> string list \<Rightarrow> results \<Rightarrow> string list option" where
  "scrape_loop max_images images Exhausted = Some images"
| "scrape_loop max_images images Raises = None"
| "scrape_loop max_images images (Yield result rest) =
     (let image_url = dict_get result ''image'' PNone;
          images' = (if valid_image image_url then images @ [py_str image_url] else images)
      in if max_images \<le> int (length images') then Some images'
         else scrape_loop max_images images' rest)"

definition scrape_duckduckgo_images :: "image_service \<Rightarrow> string \<Rightarrow> int \<Rightarrow> string list" where
  "scrape_duckduckgo_images ddgs query max_images =
     (case scrape_loop max_images [] (ddgs (images_request query (max_images * 2))) of
        None \<Rightarrow> replicate (nat max_images) get_placeholder_image
      | Some images \<Rightarrow>
          if images \<noteq> [] then images
          else replicate (nat max_images) get_placeholder_image)"

text \<open>
  \<^verbatim>\<open>
  def fetch_accessory_images(accessories_list):
      images = {}
      try:
          with DDGS() as ddgs:
              for item in accessories_list:
                  results = ddgs.images(keywords=f"{item} accessory", region="wt-wt", safesearch="moderate", layout="square", max_results=1)
                  for result in results:
                      image_url = result.get("image")
                      if image_url:
                          images[item] = image_url
                          break
      except Exception as e:
          logger.error(f"Accessory image fetching failed: {e}")
      return images
  \<close>
  \<open>first_image\<close> is the inner loop over the results of one item, \<open>fetch_loop\<close>
  the outer loop over the items. The \<^verbatim>\<open>try\<close> encloses the outer loop: an
  exception leaves both loops and the dictionary filled so far is returned.
\<close>

datatype lookup = LookupRaised | NoImage | Found pyval

fun first_image :: "results \<Rightarrow> lookup" where
  "first_image Exhausted = NoImage"
| "first_image Raises = LookupRaised"
| "first_image (Yield result rest) =
     (let image_url = dict_get result ''image'' PNone
      in if truthy image_url then Found image_url else first_image rest)"

definition lookup_item :: "image_service \<Rightarrow> string \<Rightarrow> lookup" where
  "lookup_item ddgs item = first_image (ddgs (images_request (item @ '' accessory'') 1))"

fun fetch_loop :: "image_service \<Rightarrow> pydict \<Rightarrow> string list \<Rightarrow> pydict" where
  "fetch_loop ddgs images [] = images"
| "fetch_loop ddgs images (item # items) =
     (case lookup_item ddgs item of
        LookupRaised \<Rightarrow> images
      | NoImage \<Rightarrow> fetch_loop ddgs images items
      | Found image_url \<Rightarrow> fetch_loop ddgs (images(item \<mapsto> image_url)) items)"

definition fetch_accessory_images :: "image_service \<Rightarrow> string list \<Rightarrow> pydict" where
  "fetch_accessory_images ddgs accessories_list = fetch_loop ddgs Map.empty accessories_list"

section \<open>Recommendation Orchestrator\<close>

text \<open>
  What the routes read from their surroundings: the credential read once at start-up
  by \<^verbatim>\<open>os.getenv("GEMINI_API_KEY")\<close>, the two services, and the JSON
  codec. \<^verbatim>\<open>json.loads\<close> returns the decoded document, which is a
  dictionary or something else, or raises: \<^verbatim>\<open>JSONDecodeError\<close> on a
  text that is not JSON, and \<^verbatim>\<open>RecursionError\<close> on a text nested deeper
  than the interpreter's recursion limit. \<^verbatim>\<open>request.form\<close> is a
  multi-dictionary: a key holds the list of its values, and is in the form when that
  list is not empty.
\<close>

datatype decoded = JsonDict pydict | JsonOther

datatype json_result = Loaded decoded | RaisesJSONDecodeError | RaisesRecursionError

record environment =
  GEMINI_API_KEY :: "string option"
  generate_content :: text_service
  ddgs_images :: image_service
  json_loads :: "string \<Rightarrow> json_result"
  json_dumps :: "pydict \<Rightarrow> string"

type_synonym form_data = "string \<Rightarrow> string list"

text \<open>\<^verbatim>\<open>request.form.get(key, default)\<close>: the first value of the key.\<close>

definition form_get :: "form_data \<Rightarrow> string \<Rightarrow> string \<Rightarrow> string" where
  "form_get frm k dflt = (case frm k of [] \<Rightarrow> dflt | v # vs \<Rightarrow> v)"

text \<open>The truth value of \<^verbatim>\<open>GEMINI_API_KEY\<close>: set, and not the empty string.\<close>

definition key_present :: "string option \<Rightarrow> bool" where
  "key_present k = (case k of None \<Rightarrow> False | Some s \<Rightarrow> s \<noteq> [])"

text \<open>
  \<^verbatim>\<open>
  GEMINI_API_KEY = os.getenv("GEMINI_API_KEY")

  if GEMINI_API_KEY:
      try:
          genai.configure(api_key=GEMINI_API_KEY)
      except Exception as e:
          logger.error(f"Gemini API setup failed: {e}")
  \<close>
  The module hands the credential to the client library only when it is set, and it is
  the only credential there is. \<open>backend\<close> is the text-generation service as it
  answers a client that holds the credential (a failed \<^verbatim>\<open>configure\<close> is a
  backend that raises); a client that was never given one raises on every call.
\<close>

definition startup ::
  "string option \<Rightarrow> text_service \<Rightarrow> image_service \<Rightarrow> (string \<Rightarrow> json_result)
     \<Rightarrow> (pydict \<Rightarrow> string) \<Rightarrow> environment" where
  "startup key backend ddgs loads dumps =
     \<lparr>GEMINI_API_KEY = key,
      generate_content = (if key_present key then backend else (\<lambda>r. GenRaises)),
      ddgs_images = ddgs, json_loads = loads, json_dumps = dumps\<rparr>"

record recommendation_page =
  query :: string
  image_urls :: "string list"
  description :: string
  preferences :: string
  accessories_response :: "string option"

record accessories_page =
  outfit :: string
  accessories_text :: string
  accessory_images :: pydict

datatype response =
  Redirect string
| RecommendationPage recommendation_page
| AccessoriesPage accessories_page

text \<open>
  \<^verbatim>\<open>
  @app.route('/recommend', methods=['POST'])
  def recommend():
      if 'user' not in session:
          return redirect(url_for('login'))
      user_preferences = {
          "color": request.form.get('color', '').strip(),
          "gender": request.form.get('gender', '').strip(),
          "type": request.form.get('type', '').strip(),
          "occasion": request.form.get('occasion', '').strip(),
          "style": request.form.get('style', '').strip()
      }
      raw_query = construct_query(user_preferences)
      refined_query = refine_query_gemini(raw_query) if GEMINI_API_KEY else raw_query
      image_urls = scrape_duckduckgo_images(refined_query)
      description = generate_description(user_preferences)
      accessories_response = None
      if 'accessory_items' in request.form:
          accessory_items = request.form.getlist('accessory_items')
          accessories_response = generate_accessories(refined_query, user_preferences['gender'], accessory_items)
      return render_template('recommendation.html', query=refined_query,
          image_urls=image_urls, description=description,
          preferences=json.dumps(user_preferences),
          accessories_response=accessories_response)
  \<close>
  The response is the template's context; rendering is not modelled. The dictionary is
  built with all five keys, so the subscript \<^verbatim>\<open>user_preferences['gender']\<close>
  finds its key and reads the same value as \<^verbatim>\<open>get\<close> does.
\<close>

definition user_preferences_of :: "form_data \<Rightarrow> pydict" where
  "user_preferences_of frm =
     [''color'' \<mapsto> PStr (strip (form_get frm ''color'' [])),
      ''gender'' \<mapsto> PStr (strip (form_get frm ''gender'' [])),
      ''type'' \<mapsto> PStr (strip (form_get frm ''type'' [])),
      ''occasion'' \<mapsto> PStr (strip (form_get frm ''occasion'' [])),
      ''style'' \<mapsto> PStr (strip (form_get frm ''style'' []))]"

definition recommend ::
  "environment \<Rightarrow> (string \<rightharpoonup> string) \<Rightarrow> form_data \<Rightarrow> py_error + response" where
  "recommend env session frm =
     (if session ''user'' = None then Inr (Redirect ''login'')
      else
        (let user_preferences = user_preferences_of frm in
         case construct_query user_preferences of
           Inl e \<Rightarrow> Inl e
         | Inr raw_query \<Rightarrow>
             (let refined_query =
                    (if key_present (GEMINI_API_KEY env)
                     then refine_query_gemini (generate_content env) raw_query
                     else raw_query);
                  urls = scrape_duckduckgo_images (ddgs_images env) refined_query 5;
                  descr = generate_description (generate_content env) user_preferences;
                  acc =
                    (if frm ''accessory_items'' \<noteq> []
                     then Some (generate_accessories (generate_content env) refined_query
                                  (dict_get user_preferences ''gender'' PNone)
                                  (frm ''accessory_items''))
                     else None)
              in Inr (RecommendationPage
                       \<lparr>query = refined_query, image_urls = urls, description = descr,
                        preferences = json_dumps env user_preferences,
                        accessories_response = acc\<rparr>))))"

text \<open>
  \<^verbatim>\<open>
  @app.route('/accessories', methods=['POST'])
  def accessories():
      try:
          prefs = json.loads(request.form.get('preferences', '{}'))
      except json.JSONDecodeError as e:
          logger.error(f"Failed to parse preferences JSON: {e}")
          prefs = {}
      items = request.form.getlist('items')
      outfit_desc = construct_query(prefs)
      gender = prefs.get("gender", "unisex")
      text = generate_accessories(outfit_desc, gender, items)
      accessory_images = fetch_accessory_images(items)
      return render_template("accessories.html", outfit=outfit_desc,
          accessories=text, accessory_images=accessory_images)
  \<close>
  Only \<^verbatim>\<open>JSONDecodeError\<close> is caught: any other exception of
  \<^verbatim>\<open>json.loads\<close> leaves the route. A decoded document that is not a
  dictionary has no \<^verbatim>\<open>get\<close>: the first \<^verbatim>\<open>prefs.get\<close> raises
  \<^verbatim>\<open>AttributeError\<close>, which nothing catches.
\<close>

definition load_preferences :: "environment \<Rightarrow> form_data \<Rightarrow> py_error + decoded" where
  "load_preferences env frm =
     (case json_loads env (form_get frm ''preferences'' ''{}'') of
        RaisesJSONDecodeError \<Rightarrow> Inr (JsonDict Map.empty)
      | RaisesRecursionError \<Rightarrow> Inl RecursionError
      | Loaded d \<Rightarrow> Inr d)"

definition accessories :: "environment \<Rightarrow> form_data \<Rightarrow> py_error + response" where
  "accessories env frm =
     (case load_preferences env frm of
        Inl e \<Rightarrow> Inl e
      | Inr JsonOther \<Rightarrow> Inl AttributeError
      | Inr (JsonDict prefs) \<Rightarrow>
          (let items = frm ''items'' in
           case construct_query prefs of
             Inl e \<Rightarrow> Inl e
           | Inr outfit_desc \<Rightarrow>
               (let gender = dict_get prefs ''gender'' (PStr ''unisex'');
                    txt = generate_accessories (generate_content env) outfit_desc gender items;
                    imgs = fetch_accessory_images (ddgs_images env) items
                in Inr (AccessoriesPage
                         \<lparr>outfit = outfit_desc, accessories_text = txt,
                          accessory_images = imgs\<rparr>))))"

section \<open>Notions the properties are stated with\<close>

text \<open>
  The Preference Set of a primary request: five strings, empty when the user left the
  field out. \<open>prefs_dict\<close> is the dictionary \<^verbatim>\<open>recommend\<close> builds from it.
\<close>

record preference_set =
  color :: string
  gender :: string
  garment :: string
  occasion :: string
  style :: string

definition prefs_dict :: "preference_set \<Rightarrow> pydict" where
  "prefs_dict p =
     [''color'' \<mapsto> PStr (color p), ''gender'' \<mapsto> PStr (gender p),
      ''type'' \<mapsto> PStr (garment p), ''occasion'' \<mapsto> PStr (occasion p),
      ''style'' \<mapsto> PStr (style p)]"

text \<open>
  The Query Builder as the specification words it: color, style, type, the phrase
  "for occasion" when the occasion is not empty, gender; empty fields skipped, single
  spaces between the others, the whole trimmed.
\<close>

definition build_query_spec :: "preference_set \<Rightarrow> string" where
  "build_query_spec p =
     strip (join '' ''
       (filter (\<lambda>s. s \<noteq> [])
          [color p, style p, garment p,
           (if occasion p \<noteq> [] then ''for '' @ occasion p else []),
           gender p]))"

text \<open>
  Of a result sequence of the image search: the valid image URLs it hands out before it
  ends, in order, and whether it ends by raising.
\<close>

fun valid_urls :: "results \<Rightarrow> string list" where
  "valid_urls Exhausted = []"
| "valid_urls Raises = []"
| "valid_urls (Yield result rest) =
     (if valid_image (dict_get result ''image'' PNone)
      then py_str (dict_get result ''image'' PNone) # valid_urls rest
      else valid_urls rest)"

fun ends_raising :: "results \<Rightarrow> bool" where
  "ends_raising Exhausted = False"
| "ends_raising Raises = True"
| "ends_raising (Yield result rest) = ends_raising rest"

text \<open>The entry an item's lookup contributes to the accessory image map.\<close>

fun lookup_entry :: "lookup \<Rightarrow> pyval option" where
  "lookup_entry (Found u) = Some u"
| "lookup_entry NoImage = None"
| "lookup_entry LookupRaised = None"

text \<open>
  A usable answer of the text-generation service to the refinement request: there is a
  candidate, the text can be read, and it holds at least one token.
\<close>

fun usable_text :: "gen_outcome \<Rightarrow> string option" where
  "usable_text GenRaises = None"
| "usable_text (GenResponse candidates None) = None"
| "usable_text (GenResponse candidates (Some t)) =
     (if candidates = 0 \<or> split_ws t = [] then None else Some t)"

section \<open>Sample collaborators\<close>

text \<open>Services and requests the general statements are instantiated with.\<close>

definition image_record :: "pyval \<Rightarrow> pydict" where
  "image_record v = [''image'' \<mapsto> v]"

definition gen_down :: text_service where
  "gen_down = (\<lambda>r. GenRaises)"

definition gen_says :: "string \<Rightarrow> text_service" where
  "gen_says t = (\<lambda>r. GenResponse 1 (Some t))"

definition gen_blocked :: text_service where
  "gen_blocked = (\<lambda>r. GenResponse 0 None)"

text \<open>Two valid URLs among four records, then the results run out.\<close>

definition two_hits :: image_service where
  "two_hits = (\<lambda>r.
     Yield (image_record (PStr ''https://img.example/a.jpg''))
       (Yield (image_record (PStr ''ftp://img.example/b.jpg''))
         (Yield Map.empty
           (Yield (image_record (PStr ''http://img.example/c.jpg'')) Exhausted))))"

definition ddgs_down :: image_service where
  "ddgs_down = (\<lambda>r. Raises)"

text \<open>The lookup of the watch raises; the lookup of the belt finds an image.\<close>

definition watch_fails :: image_service where
  "watch_fails = (\<lambda>r.
     if search_keywords r = ''watch accessory'' then Raises
     else if search_keywords r = ''belt accessory''
     then Yield (image_record (PStr ''https://img.example/belt.jpg'')) Exhausted
     else Exhausted)"

text \<open>The lookup of the watch finds an image; the lookup of the belt raises.\<close>

definition belt_fails :: image_service where
  "belt_fails = (\<lambda>r.
     if search_keywords r = ''watch accessory''
     then Yield (image_record (PStr ''https://img.example/watch.jpg'')) Exhausted
     else if search_keywords r = ''belt accessory'' then Raises
     else Exhausted)"

text \<open>Every lookup returns one record; for the watch it has an image, for others none.\<close>

definition watch_only :: image_service where
  "watch_only = (\<lambda>r.
     if search_keywords r = ''watch accessory''
     then Yield (image_record (PStr ''https://img.example/watch.jpg'')) Exhausted
     else Yield Map.empty Exhausted)"

text \<open>The one record of every lookup names a file transfer address.\<close>

definition ftp_only :: image_service where
  "ftp_only = (\<lambda>r. Yield (image_record (PStr ''ftp://img.example/watch.png'')) Exhausted)"

text \<open>
  A stand-in for \<^verbatim>\<open>json.loads\<close> that agrees with it on the texts used
  below: the empty object, the empty array, a text of a thousand or more opening brackets
  and nothing else (nested beyond the default recursion limit of 1000), and a text that
  is not JSON. It is not a decoder: every other text is answered as the last one is.
\<close>

definition sample_loads :: "string \<Rightarrow> json_result" where
  "sample_loads s =
     (if s = ''{}'' then Loaded (JsonDict Map.empty)
      else if s = ''[]'' then Loaded JsonOther
      else if 1000 \<le> length s \<and> list_all (\<lambda>c. c = CHR ''['') s then RaisesRecursionError
      else RaisesJSONDecodeError)"

definition deep_blob :: string where
  "deep_blob = replicate 1000 (CHR ''['')"

definition sample_env :: "string option \<Rightarrow> text_service \<Rightarrow> image_service \<Rightarrow> environment" where
  "sample_env k gen ddgs =
     \<lparr>GEMINI_API_KEY = k, generate_content = gen, ddgs_images = ddgs,
      json_loads = sample_loads,
      json_dumps = (\<lambda>d. [])\<rparr>"

definition logged_in :: "string \<rightharpoonup> string" where
  "logged_in = [''user'' \<mapsto> ''asha'']"

definition party_form :: form_data where
  "party_form = (\<lambda>k.
     if k = ''color'' then [''red''] else if k = ''gender'' then [''female'']
     else if k = ''type'' then [''dress''] else if k = ''occasion'' then [''party'']
     else if k = ''style'' then [''elegant''] else [])"

definition party_form_with_items :: form_data where
  "party_form_with_items = (\<lambda>k.
     if k = ''accessory_items'' then [''watch''] else party_form k)"

definition party_prefs :: preference_set where
  "party_prefs =
     \<lparr>color = ''red'', gender = ''female'', garment = ''dress'', occasion = ''party'',
      style = ''elegant''\<rparr>"

definition no_prefs :: preference_set where
  "no_prefs = \<lparr>color = [], gender = [], garment = [], occasion = [], style = []\<rparr>"

text \<open>
  An image for the single-result lookup of the watch accessory and nothing for any other
  request.
\<close>

definition watch_found :: image_service where
  "watch_found = (\<lambda>r.
     if search_keywords r = ''watch accessory'' \<and> max_results r = 1
     then Yield (image_record (PStr ''https://img.example/watch.jpg'')) Exhausted
     else Exhausted)"

definition nothing_found :: image_service where
  "nothing_found = (\<lambda>r. Exhausted)"

text \<open>A follow-up request with no preferences field, and one whose field is not JSON.\<close>

definition items_only_form :: form_data where
  "items_only_form = (\<lambda>k. if k = ''items'' then [''watch''] else [])"

definition broken_prefs_form :: form_data where
  "broken_prefs_form = (\<lambda>k.
     if k = ''items'' then [''watch'']
     else if k = ''preferences'' then [''{color: red''] else [])"

text \<open>
  Follow-up requests whose preferences field is an array, and a text of a thousand
  opening brackets.
\<close>

definition list_prefs_form :: form_data where
  "list_prefs_form = (\<lambda>k.
     if k = ''items'' then [''watch'']
     else if k = ''preferences'' then [''[]''] else [])"

definition deep_prefs_form :: form_data where
  "deep_prefs_form = (\<lambda>k.
     if k = ''items'' then [''watch'']
     else if k = ''preferences'' then [deep_blob] else [])"

text \<open>The Preference Set a primary request's form holds.\<close>

definition form_preferences :: "form_data \<Rightarrow> preference_set" where
  "form_preferences frm =
     \<lparr>color = strip (form_get frm ''color'' []),
      gender = strip (form_get frm ''gender'' []),
      garment = strip (form_get frm ''type'' []),
      occasion = strip (form_get frm ''occasion'' []),
      style = strip (form_get frm ''style'' [])\<rparr>"

section \<open>Facts about splitting and joining\<close>

lemma is_space_blank: "is_space CHR '' ''"
  by (simp add: is_space_def)

lemma split_ws_tokens:
  "t \<in> set (split_ws s) \<Longrightarrow> t \<noteq> [] \<and> (\<forall>c\<in>set t. \<not> is_space c)"
proof (induction s rule: split_ws.induct)
  case 1
  then show ?case by simp
next
  case (2 c cs)
  show ?case
  proof (cases "is_space c")
    case True
    with 2(3) have "t \<in> set (split_ws cs)" by simp
    then show ?thesis by (rule 2(1)[OF True])
  next
    case False
    have run: "\<And>x. x \<in> set (takeWhile (\<lambda>x. \<not> is_space x) cs) \<Longrightarrow> \<not> is_space x"
      by (drule set_takeWhileD) simp
    from 2(3) False
    have "t = c # takeWhile (\<lambda>x. \<not> is_space x) cs
          \<or> t \<in> set (split_ws (dropWhile (\<lambda>x. \<not> is_space x) cs))"
      by simp
    then show ?thesis
    proof
      assume "t = c # takeWhile (\<lambda>x. \<not> is_space x) cs"
      then show ?thesis using False run by simp
    next
      assume "t \<in> set (split_ws (dropWhile (\<lambda>x. \<not> is_space x) cs))"
      then show ?thesis by (rule 2(2)[OF False])
    qed
  qed
qed

lemma split_ws_leading: "split_ws (dropWhile is_space s) = split_ws s"
  by (induction s) auto

lemma takeWhile_spaces:
  "\<forall>c\<in>set w. is_space c \<Longrightarrow> takeWhile (\<lambda>x. \<not> is_space x) w = []"
  by (cases w) auto

lemma dropWhile_spaces:
  "\<forall>c\<in>set w. is_space c \<Longrightarrow> dropWhile (\<lambda>x. \<not> is_space x) w = w"
  by (cases w) auto

lemma takeWhile_app_spaces:
  "\<forall>c\<in>set w. is_space c \<Longrightarrow>
   takeWhile (\<lambda>x. \<not> is_space x) (cs @ w) = takeWhile (\<lambda>x. \<not> is_space x) cs"
  by (induction cs) (simp_all add: takeWhile_spaces)

lemma dropWhile_app_spaces:
  "\<forall>c\<in>set w. is_space c \<Longrightarrow>
   dropWhile (\<lambda>x. \<not> is_space x) (cs @ w) = dropWhile (\<lambda>x. \<not> is_space x) cs @ w"
  by (induction cs) (simp_all add: dropWhile_spaces)

lemma split_ws_spaces: "\<forall>c\<in>set w. is_space c \<Longrightarrow> split_ws w = []"
  by (induction w) simp_all

lemma split_ws_trailing:
  "\<forall>c\<in>set w. is_space c \<Longrightarrow> split_ws (s @ w) = split_ws s"
proof (induction s rule: split_ws.induct)
  case 1
  then show ?case by (simp add: split_ws_spaces)
next
  case (2 c cs)
  show ?case
  proof (cases "is_space c")
    case True
    with 2 show ?thesis by simp
  next
    case False
    with 2 show ?thesis
      by (simp add: takeWhile_app_spaces dropWhile_app_spaces)
  qed
qed

lemma split_ws_strip: "split_ws (strip t) = split_ws t"
proof -
  let ?s = "dropWhile is_space t"
  have "?s = strip t @ rev (takeWhile is_space (rev ?s))"
    unfolding strip_def
    by (metis rev_append rev_rev_ident takeWhile_dropWhile_id)
  moreover have "\<forall>c\<in>set (rev (takeWhile is_space (rev ?s))). is_space c"
    by (auto dest: set_takeWhileD)
  ultimately have "split_ws ?s = split_ws (strip t)"
    using split_ws_trailing[of "rev (takeWhile is_space (rev ?s))" "strip t"] by simp
  then show ?thesis by (simp add: split_ws_leading)
qed

lemma split_ws_token_append:
  assumes "x \<noteq> []" and "\<forall>c\<in>set x. \<not> is_space c" and "rest = [] \<or> is_space (hd rest)"
  shows "split_ws (x @ rest) = x # split_ws rest"
proof -
  obtain c cs where x: "x = c # cs" using assms(1) by (cases x) auto
  have tw: "takeWhile (\<lambda>x. \<not> is_space x) (x @ rest) = x"
    using assms(2,3) by (cases rest) (auto simp: takeWhile_append2)
  have dw: "dropWhile (\<lambda>x. \<not> is_space x) (cs @ rest) = rest"
    using assms(2,3) x by (cases rest) (auto simp: dropWhile_append2)
  have "\<not> is_space c" using assms(2) x by simp
  then show ?thesis using tw dw x by simp
qed

lemma split_ws_join:
  "\<forall>t\<in>set ts. t \<noteq> [] \<and> (\<forall>c\<in>set t. \<not> is_space c) \<Longrightarrow> split_ws (join '' '' ts) = ts"
proof (induction ts rule: induct_list012)
  case 1
  then show ?case by simp
next
  case (2 x)
  then show ?case using split_ws_token_append[of x "[]"] by simp
next
  case (3 x y zs)
  have "split_ws (x @ '' '' @ join '' '' (y # zs)) = x # split_ws ('' '' @ join '' '' (y # zs))"
    using 3(3) by (intro split_ws_token_append) (simp_all add: is_space_blank)
  also have "split_ws ('' '' @ join '' '' (y # zs)) = split_ws (join '' '' (y # zs))"
    by (simp add: is_space_blank)
  also have "\<dots> = y # zs" using 3(2) 3(3) by simp
  finally show ?case by simp
qed

lemma join_Nil_iff: "\<forall>t\<in>set ts. t \<noteq> [] \<Longrightarrow> join sep ts = [] \<longleftrightarrow> ts = []"
  by (induction ts rule: induct_list012) simp_all

section \<open>The Query Builder\<close>

lemma str_or_none:
  assumes "\<forall>v\<in>ran prefs. is_str v"
  shows "dict_get prefs k PNone = PNone \<or> is_str (dict_get prefs k PNone)"
proof (cases "prefs k")
  case None
  then show ?thesis by (simp add: dict_get_def)
next
  case (Some v)
  then have "v \<in> ran prefs" by (auto simp: ran_def)
  with assms Some show ?thesis by (simp add: dict_get_def)
qed

lemma filter_truthy_strs:
  "\<forall>v\<in>set vs. v = PNone \<or> is_str v \<Longrightarrow> list_all is_str (filter truthy vs)"
  by (induction vs) auto

lemma construct_query_total:
  assumes "\<forall>v\<in>ran prefs. is_str v"
  shows "\<exists>q. construct_query prefs = Inr q"
proof -
  have "list_all is_str (filter truthy
          [dict_get prefs ''color'' PNone, dict_get prefs ''style'' PNone,
           dict_get prefs ''type'' PNone,
           (if truthy (dict_get prefs ''occasion'' PNone)
            then PStr (''for '' @ py_str (dict_get prefs ''occasion'' PNone))
            else PStr []),
           dict_get prefs ''gender'' PNone])"
    by (rule filter_truthy_strs) (use str_or_none[OF assms] in simp)
  then show ?thesis
    by (simp add: construct_query_def join_values_def)
qed

lemma dict_get_absent:
  assumes "prefs k = None"
  shows "truthy (dict_get (prefs(k \<mapsto> PStr [])) k' PNone) = truthy (dict_get prefs k' PNone)"
    and "truthy (dict_get prefs k' PNone) \<Longrightarrow>
         dict_get (prefs(k \<mapsto> PStr [])) k' PNone = dict_get prefs k' PNone"
  using assms by (auto simp: dict_get_def)

lemma construct_query_absent:
  assumes "prefs k = None"
  shows "construct_query (prefs(k \<mapsto> PStr [])) = construct_query prefs"
  unfolding construct_query_def
  using dict_get_absent[of prefs k, OF assms] by (simp cong: if_cong)

text \<open>
  C6. The Query Builder is a total function of the Preference Set: on the dictionary of
  any Preference Set it returns a string, never an error, and that string is the one the
  specification describes: color, style, type, "for occasion" when the occasion is not
  empty, gender; empty fields skipped, single spaces between the others, trimmed. The
  Preference Set with every field empty (and the dictionary with no field at all) gives
  the empty string, and red, female, dress, party, elegant give
  "red elegant dress for party female".
\<close>

theorem construct_query_builds:
  "construct_query (prefs_dict p) = Inr (build_query_spec p)
   \<and> build_query_spec no_prefs = []
   \<and> construct_query Map.empty = Inr []
   \<and> construct_query (prefs_dict party_prefs) = Inr ''red elegant dress for party female''"
  by (simp add: construct_query_def prefs_dict_def build_query_spec_def dict_get_def
      join_values_def no_prefs_def party_prefs_def strip_def is_space_def)

text \<open>
  C10. On a preference dictionary whose values are all strings the Query Builder never
  raises, whichever of its keys are absent, and binding an absent key to the empty
  string does not change the query. The dictionary with no key at all, which the
  accessory route passes when it has nothing better, is such a dictionary.
\<close>

theorem construct_query_absent_keys:
  assumes "\<forall>v\<in>ran prefs. is_str v"
  shows "(\<exists>q. construct_query prefs = Inr q)
         \<and> (prefs k = None \<longrightarrow>
              construct_query (prefs(k \<mapsto> PStr [])) = construct_query prefs)"
  using construct_query_total[OF assms] construct_query_absent by blast

theorem construct_query_absent_keys_witness:
  "(\<exists>q. construct_query [''color'' \<mapsto> PStr ''red''] = Inr q)
   \<and> construct_query ([''color'' \<mapsto> PStr ''red''](''style'' \<mapsto> PStr []))
       = construct_query [''color'' \<mapsto> PStr ''red'']"
  using construct_query_absent_keys[of "[''color'' \<mapsto> PStr ''red'']" "''style''"]
  by simp

section \<open>The Text Generation Client\<close>

lemma take_tokens:
  "t \<in> set (take n (split_ws s)) \<Longrightarrow> t \<noteq> [] \<and> (\<forall>c\<in>set t. \<not> is_space c)"
  by (rule split_ws_tokens) (erule in_set_takeD)

lemma split_ws_join_take:
  "split_ws (join '' '' (take n (split_ws s))) = take n (split_ws s)"
  by (rule split_ws_join) (use take_tokens in blast)

lemma join_take_Nil_iff:
  "join '' '' (take n (split_ws s)) = [] \<longleftrightarrow> take n (split_ws s) = []"
  by (rule join_Nil_iff) (use take_tokens in blast)

lemma refine_usable:
  assumes "usable_text (gen (refine_request raw_query)) = Some t"
  shows "refine_query_gemini gen raw_query = join '' '' (take 8 (split_ws t))"
proof -
  from assms obtain n where g: "gen (refine_request raw_query) = GenResponse n (Some t)"
    and n: "n \<noteq> 0" and toks: "split_ws t \<noteq> []"
    by (cases "gen (refine_request raw_query)" rule: usable_text.cases)
       (auto split: if_splits)
  from toks have "take 8 (split_ws t) \<noteq> []" by simp
  then have "join '' '' (take 8 (split_ws t)) \<noteq> []"
    by (simp add: join_take_Nil_iff)
  with g n show ?thesis
    by (simp add: refine_query_gemini_def split_ws_strip)
qed

lemma refine_unusable:
  assumes "usable_text (gen (refine_request raw_query)) = None"
  shows "refine_query_gemini gen raw_query = raw_query"
proof (cases "gen (refine_request raw_query)")
  case GenRaises
  then show ?thesis by (simp add: refine_query_gemini_def)
next
  case (GenResponse n rt)
  show ?thesis
  proof (cases rt)
    case None
    with GenResponse show ?thesis by (simp add: refine_query_gemini_def)
  next
    case (Some t)
    with GenResponse assms have "n = 0 \<or> split_ws t = []"
      by (simp split: if_splits)
    with GenResponse Some show ?thesis
      by (auto simp: refine_query_gemini_def split_ws_strip)
  qed
qed

text \<open>
  C4, as the code has it. For a query that is not empty the refined query is not empty.
  When the service's answer is usable (a candidate, a readable text, at least one token)
  the refined query is the first eight tokens of that text at most, joined by single
  spaces, and splitting it gives back exactly those tokens, so it has at most eight.
  In every other case the refined query is the raw query, unchanged, however many tokens
  it has.
\<close>

theorem refine_query_result:
  assumes "raw_query \<noteq> []"
  shows "refine_query_gemini gen raw_query \<noteq> []
         \<and> (case usable_text (gen (refine_request raw_query)) of
              Some t \<Rightarrow>
                refine_query_gemini gen raw_query = join '' '' (take 8 (split_ws t))
                \<and> split_ws (refine_query_gemini gen raw_query) = take 8 (split_ws t)
                \<and> length (split_ws (refine_query_gemini gen raw_query)) \<le> 8
            | None \<Rightarrow> refine_query_gemini gen raw_query = raw_query)"
proof (cases "usable_text (gen (refine_request raw_query))")
  case None
  then show ?thesis using assms by (simp add: refine_unusable)
next
  case (Some t)
  then have toks: "split_ws t \<noteq> []"
    by (cases "gen (refine_request raw_query)" rule: usable_text.cases)
       (auto split: if_splits)
  have r: "refine_query_gemini gen raw_query = join '' '' (take 8 (split_ws t))"
    using Some by (rule refine_usable)
  from toks have "take 8 (split_ws t) \<noteq> []" by simp
  then have "join '' '' (take 8 (split_ws t)) \<noteq> []"
    by (simp add: join_take_Nil_iff)
  with Some r show ?thesis
    by (simp add: split_ws_join_take)
qed

theorem refine_query_result_witness:
  "''red dress'' \<noteq> []
   \<and> refine_query_gemini (gen_says ''  elegant red   dress '') ''red dress''
       = ''elegant red dress''
   \<and> split_ws (refine_query_gemini (gen_says ''  elegant red   dress '') ''red dress'')
       = [''elegant'', ''red'', ''dress'']
   \<and> refine_query_gemini gen_blocked ''red dress'' = ''red dress''"
  using refine_query_result[of "''red dress''" "gen_says ''  elegant red   dress ''"]
    refine_query_result[of "''red dress''" gen_blocked]
  by (simp add: gen_says_def gen_blocked_def is_space_def)

text \<open>
  The claim as stated fails: with the service down a raw query of nine tokens comes back
  unchanged, with its nine tokens.
\<close>

theorem refine_query_nine_tokens:
  "''a b c d e f g h i'' \<noteq> []
   \<and> refine_query_gemini gen_down ''a b c d e f g h i'' = ''a b c d e f g h i''
   \<and> length (split_ws (refine_query_gemini gen_down ''a b c d e f g h i'')) = 9"
  by (simp add: refine_query_gemini_def gen_down_def is_space_def)

text \<open>
  C7, as the code has it. The description is the fixed fallback sentence when the call
  raises, when the response has no candidate, and when the response's text cannot be
  read. When there is a candidate and a text, the description is that text, stripped; a
  text that is empty or blank is not replaced by the fallback. The function is total:
  it never raises.
\<close>

theorem generate_description_result:
  "(gen (plain_request (description_prompt prefs)) = GenRaises \<longrightarrow>
      generate_description gen prefs = description_fallback)
   \<and> (gen (plain_request (description_prompt prefs)) = GenResponse 0 txt \<longrightarrow>
      generate_description gen prefs = description_fallback)
   \<and> (gen (plain_request (description_prompt prefs)) = GenResponse n None \<longrightarrow>
      generate_description gen prefs = description_fallback)
   \<and> (gen (plain_request (description_prompt prefs)) = GenResponse (Suc n) (Some t) \<longrightarrow>
      generate_description gen prefs = strip t)"
  by (simp add: generate_description_def)

theorem generate_description_result_witness:
  "generate_description gen_down (prefs_dict party_prefs) = description_fallback
   \<and> generate_description gen_blocked (prefs_dict party_prefs) = description_fallback
   \<and> generate_description (\<lambda>r. GenResponse 1 None) (prefs_dict party_prefs)
       = description_fallback
   \<and> generate_description (gen_says '' A red dress. '') (prefs_dict party_prefs)
       = ''A red dress.''"
  using generate_description_result[of gen_down "prefs_dict party_prefs" None 0 "[]"]
    generate_description_result[of gen_blocked "prefs_dict party_prefs" None 0 "[]"]
    generate_description_result[of "\<lambda>r. GenResponse 1 None" "prefs_dict party_prefs"
      None 1 "[]"]
    generate_description_result[of "gen_says '' A red dress. ''" "prefs_dict party_prefs"
      None 0 "'' A red dress. ''"]
  by (simp add: gen_down_def gen_blocked_def gen_says_def strip_def is_space_def)

text \<open>
  The claim as stated fails: a response with a candidate and a blank text gives the
  empty description, not the fallback sentence.
\<close>

theorem generate_description_blank:
  "generate_description (gen_says ''  '') (prefs_dict party_prefs) = []
   \<and> generate_description (gen_says ''  '') (prefs_dict party_prefs) \<noteq> description_fallback"
  by (simp add: generate_description_def gen_says_def strip_def is_space_def
      description_fallback_def)

section \<open>The Image Search Client\<close>

lemma scrape_loop_result:
  assumes "length acc < m" and "n = int m"
  shows "scrape_loop n acc rs =
           (if m \<le> length acc + length (valid_urls rs)
            then Some (take m (acc @ valid_urls rs))
            else if ends_raising rs then None
            else Some (acc @ valid_urls rs))"
  using assms(1)
proof (induction rs arbitrary: acc)
  case Exhausted
  then show ?case by simp
next
  case Raises
  then show ?case by simp
next
  case (Yield result rest)
  show ?case
  proof (cases "valid_image (dict_get result ''image'' PNone)")
    case False
    with Yield show ?thesis by (simp add: assms(2))
  next
    case True
    let ?u = "py_str (dict_get result ''image'' PNone)"
    show ?thesis
    proof (cases "m \<le> length (acc @ [?u])")
      case full: True
      with Yield.prems have "length (acc @ [?u]) = m" by simp
      then have "take m (acc @ ?u # valid_urls rest) = acc @ [?u]"
        by (metis append.assoc append_Cons append_Nil append_eq_conv_conj)
      with True full show ?thesis by (simp add: assms(2))
    next
      case more: False
      then have "length (acc @ [?u]) < m" by simp
      from Yield.IH[OF this] True more show ?thesis
        by (simp add: assms(2) take_Cons')
    qed
  qed
qed

lemma scrape_images_char:
  assumes "1 \<le> n"
  shows "scrape_duckduckgo_images ddgs q n =
           (if nat n \<le> length (valid_urls (ddgs (images_request q (n * 2))))
            then take (nat n) (valid_urls (ddgs (images_request q (n * 2))))
            else if valid_urls (ddgs (images_request q (n * 2))) = []
                    \<or> ends_raising (ddgs (images_request q (n * 2)))
            then replicate (nat n) get_placeholder_image
            else valid_urls (ddgs (images_request q (n * 2))))"
proof -
  from assms have m: "length ([] :: string list) < nat n" "n = int (nat n)" by simp_all
  show ?thesis
    unfolding scrape_duckduckgo_images_def scrape_loop_result[OF m]
    using assms by auto
qed

text \<open>
  C1, as the code has it. For a count of at least one the image list is never empty and
  never longer than the count. It is the first valid URLs of the service, up to the
  count, when the service hands out that many before it ends; it is as many copies of
  the placeholder as the count when the service hands out no valid URL, or raises before
  the count is reached; and otherwise it is the valid URLs found, fewer than the count,
  with no padding.
\<close>

theorem scrape_images_result:
  assumes "1 \<le> n"
  shows "(let rs = ddgs (images_request q (n * 2));
              vs = valid_urls rs;
              r = scrape_duckduckgo_images ddgs q n
          in 1 \<le> length r \<and> length r \<le> nat n
             \<and> r = (if nat n \<le> length vs then take (nat n) vs
                    else if vs = [] \<or> ends_raising rs
                    then replicate (nat n) get_placeholder_image
                    else vs))"
proof -
  have "0 < nat n" using assms by simp
  then show ?thesis
    unfolding Let_def scrape_images_char[OF assms]
    by (auto simp: Suc_le_eq)
qed

theorem scrape_images_result_witness:
  "(1::int) \<le> 5
   \<and> scrape_duckduckgo_images two_hits ''red dress'' 5
       = [''https://img.example/a.jpg'', ''http://img.example/c.jpg'']
   \<and> scrape_duckduckgo_images ddgs_down ''red dress'' 5
       = replicate 5 get_placeholder_image"
  using scrape_images_result[of 5 two_hits "''red dress''"]
    scrape_images_result[of 5 ddgs_down "''red dress''"]
  by (simp add: Let_def two_hits_def ddgs_down_def image_record_def dict_get_def
      startswith_def)

text \<open>
  The claim as stated fails: when the service returns two usable entries for a count of
  five, the list has two entries.
\<close>

theorem scrape_images_two_of_five:
  "scrape_duckduckgo_images two_hits ''red dress'' 5
     = [''https://img.example/a.jpg'', ''http://img.example/c.jpg'']
   \<and> length (scrape_duckduckgo_images two_hits ''red dress'' 5) \<noteq> 5"
  by (simp add: scrape_duckduckgo_images_def two_hits_def image_record_def dict_get_def
      startswith_def)

lemma fetch_loop_raised:
  assumes "lookup_item ddgs item = LookupRaised"
  shows "fetch_loop ddgs images (before @ item # after) = fetch_loop ddgs images before"
proof (induction before arbitrary: images)
  case Nil
  then show ?case using assms by simp
next
  case (Cons b bs)
  then show ?case by (cases "lookup_item ddgs b") (simp_all add: fun_upd_def)
qed

lemma fetch_loop_entries:
  assumes "\<forall>i\<in>set items. lookup_item ddgs i \<noteq> LookupRaised"
  shows "fetch_loop ddgs images items i =
           (if i \<in> set items
            then (case lookup_entry (lookup_item ddgs i) of
                    Some u \<Rightarrow> Some u | None \<Rightarrow> images i)
            else images i)"
  using assms
proof (induction items arbitrary: images)
  case Nil
  then show ?case by simp
next
  case (Cons h hs)
  then have hs: "\<forall>i\<in>set hs. lookup_item ddgs i \<noteq> LookupRaised"
    and h: "lookup_item ddgs h \<noteq> LookupRaised" by simp_all
  show ?case
  proof (cases "lookup_item ddgs h")
    case LookupRaised
    with h show ?thesis by simp
  next
    case NoImage
    then show ?thesis using Cons.IH[OF hs, of images] by simp
  next
    case (Found u)
    then show ?thesis using Cons.IH[OF hs, of "images(h \<mapsto> u)"]
      by (auto simp: fun_upd_def split: option.splits)
  qed
qed

text \<open>
  C2, as the code has it. The accessory lookups never raise to the caller, but one
  handler encloses the whole batch: an error raised during the lookup of an item ends
  the batch there, so the map is the one of the items before it, and the items after it
  are not looked up. As long as no lookup raises, the items are independent: each item
  has the entry its own lookup found, or none. So a batch whose first item succeeds and
  whose second item fails has exactly the entry of the first.
\<close>

theorem fetch_accessory_images_batch:
  "(lookup_item ddgs item = LookupRaised \<longrightarrow>
      fetch_accessory_images ddgs (before @ item # after)
        = fetch_accessory_images ddgs before)
   \<and> ((\<forall>i\<in>set items. lookup_item ddgs i \<noteq> LookupRaised) \<longrightarrow>
        fetch_accessory_images ddgs items i
          = (if i \<in> set items then lookup_entry (lookup_item ddgs i) else None))"
proof (intro conjI impI)
  assume "lookup_item ddgs item = LookupRaised"
  then show "fetch_accessory_images ddgs (before @ item # after)
               = fetch_accessory_images ddgs before"
    unfolding fetch_accessory_images_def by (rule fetch_loop_raised)
next
  assume "\<forall>i\<in>set items. lookup_item ddgs i \<noteq> LookupRaised"
  from fetch_loop_entries[OF this, of Map.empty i]
  show "fetch_accessory_images ddgs items i
          = (if i \<in> set items then lookup_entry (lookup_item ddgs i) else None)"
    unfolding fetch_accessory_images_def by (simp split: option.splits)
qed

theorem fetch_accessory_images_batch_witness:
  "fetch_accessory_images belt_fails [''watch'', ''belt'']
     = fetch_accessory_images belt_fails [''watch'']
   \<and> fetch_accessory_images belt_fails [''watch'']
       = [''watch'' \<mapsto> PStr ''https://img.example/watch.jpg'']
   \<and> fetch_accessory_images watch_only [''watch'', ''belt''] ''watch''
       = Some (PStr ''https://img.example/watch.jpg'')
   \<and> fetch_accessory_images watch_only [''watch'', ''belt''] ''belt'' = None"
  using fetch_accessory_images_batch[where ddgs = belt_fails and item = "''belt''"
      and before = "[''watch'']" and after = "[]" and items = "[]"]
    fetch_accessory_images_batch[where ddgs = watch_only and items = "[''watch'', ''belt'']"
      and i = "''watch''" and item = "''watch''"]
    fetch_accessory_images_batch[where ddgs = watch_only and items = "[''watch'', ''belt'']"
      and i = "''belt''" and item = "''watch''"]
  by (simp add: fetch_accessory_images_def lookup_item_def belt_fails_def watch_only_def
      images_request_def image_record_def dict_get_def)

text \<open>
  The claim as stated fails: when the lookup of the first item raises and the lookup of
  the second would succeed, the second item is never looked up and the map is empty.
\<close>

theorem fetch_accessory_images_first_fails:
  "lookup_item watch_fails ''watch'' = LookupRaised
   \<and> lookup_item watch_fails ''belt'' = Found (PStr ''https://img.example/belt.jpg'')
   \<and> fetch_accessory_images watch_fails [''watch'', ''belt''] = Map.empty
   \<and> fetch_accessory_images watch_fails [''watch'', ''belt''] ''belt'' = None"
  by (simp add: fetch_accessory_images_def lookup_item_def watch_fails_def
      images_request_def image_record_def dict_get_def)

lemma scrape_images_validated:
  assumes "1 \<le> n" and "u \<in> set (scrape_duckduckgo_images ddgs q n)"
  shows "u = get_placeholder_image \<or> u \<in> set (valid_urls (ddgs (images_request q (n * 2))))"
  using assms(2) unfolding scrape_images_char[OF assms(1)]
  by (auto split: if_splits dest: in_set_takeD)

lemma valid_urls_http: "u \<in> set (valid_urls rs) \<Longrightarrow> startswith u ''http''"
proof (induction rs)
  case (Yield result rest)
  then show ?case
    by (cases "dict_get result ''image'' PNone") (auto split: if_splits)
qed simp_all

text \<open>
  C9, at an input where the code departs from it. The primary image search keeps an
  image only when it is a string that starts with "http" (the two lemmas above); the
  accessory lookup keeps whatever image is truthy. A result record whose image is a file
  transfer address is dropped by the first, which falls back to the placeholder, and is
  stored in the accessory image map by the second.
\<close>

theorem fetch_accessory_images_unvalidated:
  "fetch_accessory_images ftp_only [''watch''] ''watch''
     = Some (PStr ''ftp://img.example/watch.png'')
   \<and> valid_image (PStr ''ftp://img.example/watch.png'') = False
   \<and> scrape_duckduckgo_images ftp_only ''watch'' 5 = replicate 5 get_placeholder_image"
  by (simp add: fetch_accessory_images_def lookup_item_def ftp_only_def
      scrape_duckduckgo_images_def image_record_def dict_get_def startswith_def)

section \<open>The Recommendation Orchestrator\<close>

lemma user_preferences_dict: "user_preferences_of frm = prefs_dict (form_preferences frm)"
  by (simp add: user_preferences_of_def prefs_dict_def form_preferences_def)

lemma construct_query_prefs_dict: "construct_query (prefs_dict p) = Inr (build_query_spec p)"
  by (simp add: construct_query_def prefs_dict_def build_query_spec_def dict_get_def
      join_values_def)

lemma user_gender:
  "dict_get (user_preferences_of frm) ''gender'' PNone = PStr (gender (form_preferences frm))"
  by (simp add: user_preferences_of_def form_preferences_def dict_get_def)

text \<open>The page a primary request of a logged-in user is answered with.\<close>

lemma recommend_page:
  assumes "session ''user'' = Some u"
  shows "recommend env session frm =
     Inr (RecommendationPage
       \<lparr>query =
          (if key_present (GEMINI_API_KEY env)
           then refine_query_gemini (generate_content env)
                  (build_query_spec (form_preferences frm))
           else build_query_spec (form_preferences frm)),
        image_urls =
          scrape_duckduckgo_images (ddgs_images env)
            (if key_present (GEMINI_API_KEY env)
             then refine_query_gemini (generate_content env)
                    (build_query_spec (form_preferences frm))
             else build_query_spec (form_preferences frm)) 5,
        description = generate_description (generate_content env) (user_preferences_of frm),
        preferences = json_dumps env (user_preferences_of frm),
        accessories_response =
          (if frm ''accessory_items'' \<noteq> []
           then Some (generate_accessories (generate_content env)
                  (if key_present (GEMINI_API_KEY env)
                   then refine_query_gemini (generate_content env)
                          (build_query_spec (form_preferences frm))
                   else build_query_spec (form_preferences frm))
                  (PStr (gender (form_preferences frm)))
                  (frm ''accessory_items''))
           else None)\<rparr>)"
  unfolding recommend_def Let_def user_gender
  using assms
  by (simp add: user_preferences_dict construct_query_prefs_dict)

lemma scrape_primary_only:
  assumes "\<forall>r. max_results r = 10 \<longrightarrow> ddgs' r = ddgs r"
  shows "scrape_duckduckgo_images ddgs' q 5 = scrape_duckduckgo_images ddgs q 5"
proof -
  have "ddgs' (images_request q (5 * 2)) = ddgs (images_request q (5 * 2))"
    using assms by (simp add: images_request_def)
  then show ?thesis by (simp add: scrape_duckduckgo_images_def)
qed

text \<open>
  C3, as the code has it. When accessory items come with the Phase 1 preferences of a
  logged-in user, the recommendation embeds the accessory text and nothing else of the
  accessory phase: the text is the one \<open>generate_accessories\<close> produces for the
  refined query, the gender and the items, and the whole response stays the same
  whatever the image service would answer to the accessory lookups (the requests for a
  single result; the primary search asks for ten). No Accessory Image Map is assembled.
\<close>

theorem recommend_embeds_accessory_text:
  assumes "session ''user'' = Some u" and "frm ''accessory_items'' \<noteq> []"
  shows "(\<exists>page. recommend env session frm = Inr (RecommendationPage page)
            \<and> accessories_response page
                = Some (generate_accessories (generate_content env) (query page)
                         (PStr (gender (form_preferences frm))) (frm ''accessory_items'')))
         \<and> ((\<forall>r. max_results r = 10 \<longrightarrow> ddgs' r = ddgs_images env r) \<longrightarrow>
              recommend (env\<lparr>ddgs_images := ddgs'\<rparr>) session frm = recommend env session frm)"
proof (intro conjI impI)
  show "\<exists>page. recommend env session frm = Inr (RecommendationPage page)
          \<and> accessories_response page
              = Some (generate_accessories (generate_content env) (query page)
                       (PStr (gender (form_preferences frm))) (frm ''accessory_items''))"
    unfolding recommend_page[of session u, OF assms(1)] using assms(2) by simp
next
  assume "\<forall>r. max_results r = 10 \<longrightarrow> ddgs' r = ddgs_images env r"
  then have "\<And>q. scrape_duckduckgo_images ddgs' q 5
                 = scrape_duckduckgo_images (ddgs_images env) q 5"
    by (rule scrape_primary_only)
  then show "recommend (env\<lparr>ddgs_images := ddgs'\<rparr>) session frm = recommend env session frm"
    unfolding recommend_page[of session u, OF assms(1)] by simp
qed

theorem recommend_embeds_accessory_text_witness:
  "recommend (sample_env None gen_down nothing_found) logged_in party_form_with_items
     = Inr (RecommendationPage
         \<lparr>query = ''red elegant dress for party female'',
          image_urls = replicate 5 get_placeholder_image,
          description = description_fallback,
          preferences = [],
          accessories_response = Some accessories_fallback\<rparr>)
   \<and> recommend ((sample_env None gen_down nothing_found)\<lparr>ddgs_images := watch_found\<rparr>)
       logged_in party_form_with_items
       = recommend (sample_env None gen_down nothing_found) logged_in party_form_with_items"
proof -
  have a: "logged_in ''user'' = Some ''asha''" by (simp add: logged_in_def)
  have b: "party_form_with_items ''accessory_items'' \<noteq> []"
    by (simp add: party_form_with_items_def)
  have c: "\<forall>r. max_results r = 10 \<longrightarrow>
             watch_found r = ddgs_images (sample_env None gen_down nothing_found) r"
    by (simp add: watch_found_def nothing_found_def sample_env_def)
  have d: "recommend (sample_env None gen_down nothing_found) logged_in party_form_with_items
     = Inr (RecommendationPage
         \<lparr>query = ''red elegant dress for party female'',
          image_urls = replicate 5 get_placeholder_image,
          description = description_fallback,
          preferences = [],
          accessories_response = Some accessories_fallback\<rparr>)"
    unfolding recommend_page[of logged_in "''asha''", OF a]
    by (simp add: sample_env_def key_present_def build_query_spec_def form_preferences_def
        party_form_with_items_def party_form_def form_get_def strip_def is_space_def
        scrape_duckduckgo_images_def nothing_found_def generate_description_def
        generate_accessories_def gen_down_def)
  from recommend_embeds_accessory_text[where session = logged_in and u = "''asha''"
      and frm = party_form_with_items and env = "sample_env None gen_down nothing_found"
      and ddgs' = watch_found, OF a b] c d
  show ?thesis by simp
qed

text \<open>
  The claim as stated fails: two image services that differ on the accessory lookup of
  the watch, hence give different Accessory Image Maps, lead to the same recommendation,
  whose accessory part is the text alone.
\<close>

theorem recommend_no_accessory_images:
  "recommend (sample_env None gen_down watch_found) logged_in party_form_with_items
     = recommend (sample_env None gen_down nothing_found) logged_in party_form_with_items
   \<and> recommend (sample_env None gen_down watch_found) logged_in party_form_with_items
     = Inr (RecommendationPage
         \<lparr>query = ''red elegant dress for party female'',
          image_urls = replicate 5 get_placeholder_image,
          description = description_fallback,
          preferences = [],
          accessories_response = Some accessories_fallback\<rparr>)
   \<and> fetch_accessory_images watch_found [''watch''] ''watch''
       = Some (PStr ''https://img.example/watch.jpg'')
   \<and> fetch_accessory_images nothing_found [''watch''] ''watch'' = None"
proof -
  have a: "logged_in ''user'' = Some ''asha''" by (simp add: logged_in_def)
  have w: "recommend (sample_env None gen_down watch_found) logged_in party_form_with_items
     = Inr (RecommendationPage
         \<lparr>query = ''red elegant dress for party female'',
          image_urls = replicate 5 get_placeholder_image,
          description = description_fallback,
          preferences = [],
          accessories_response = Some accessories_fallback\<rparr>)"
    unfolding recommend_page[of logged_in "''asha''", OF a]
    by (simp add: sample_env_def key_present_def build_query_spec_def form_preferences_def
        party_form_with_items_def party_form_def form_get_def strip_def is_space_def
        scrape_duckduckgo_images_def watch_found_def images_request_def
        generate_description_def generate_accessories_def gen_down_def)
  have n: "recommend (sample_env None gen_down nothing_found) logged_in party_form_with_items
     = Inr (RecommendationPage
         \<lparr>query = ''red elegant dress for party female'',
          image_urls = replicate 5 get_placeholder_image,
          description = description_fallback,
          preferences = [],
          accessories_response = Some accessories_fallback\<rparr>)"
    unfolding recommend_page[of logged_in "''asha''", OF a]
    by (simp add: sample_env_def key_present_def build_query_spec_def form_preferences_def
        party_form_with_items_def party_form_def form_get_def strip_def is_space_def
        scrape_duckduckgo_images_def nothing_found_def generate_description_def
        generate_accessories_def gen_down_def)
  have f: "fetch_accessory_images watch_found [''watch''] ''watch''
             = Some (PStr ''https://img.example/watch.jpg'')"
    "fetch_accessory_images nothing_found [''watch''] ''watch'' = None"
    by (simp_all add: fetch_accessory_images_def lookup_item_def watch_found_def
        nothing_found_def images_request_def image_record_def dict_get_def)
  from w n f show ?thesis by simp
qed

lemma generate_description_down:
  "\<forall>r. gen r = GenRaises \<Longrightarrow> generate_description gen prefs = description_fallback"
  by (simp add: generate_description_def)

lemma generate_accessories_down:
  "\<forall>r. gen r = GenRaises \<Longrightarrow>
   generate_accessories gen outfit_desc g items = accessories_fallback"
  by (simp add: generate_accessories_def)

lemma startup_fields:
  "GEMINI_API_KEY (startup key backend ddgs loads dumps) = key"
  "ddgs_images (startup key backend ddgs loads dumps) = ddgs"
  "json_dumps (startup key backend ddgs loads dumps) = dumps"
  by (simp_all add: startup_def)

lemma startup_unconfigured:
  "\<not> key_present key \<Longrightarrow>
   generate_content (startup key backend ddgs loads dumps) r = GenRaises"
  by (simp add: startup_def)

text \<open>
  C8. When the credential is absent (unset or empty) the client library is never given
  one, and a logged-in user's request is still answered with a recommendation, whatever
  the service would answer to a client that holds the credential: refinement is
  bypassed, so the refined query is the raw query and the images are searched with it;
  the description is the fixed fallback sentence, and the accessory text, when
  accessory items were sent, is the fixed accessory fallback. The same holds for every
  description and every accessory text generated in that state.
\<close>

theorem recommend_without_credential:
  assumes "session ''user'' = Some u" and "\<not> key_present key"
  shows "(\<exists>page. recommend (startup key backend ddgs loads dumps) session frm
                   = Inr (RecommendationPage page)
            \<and> Inr (query page) = construct_query (user_preferences_of frm)
            \<and> image_urls page = scrape_duckduckgo_images ddgs (query page) 5
            \<and> description page = description_fallback
            \<and> accessories_response page
                = (if frm ''accessory_items'' = [] then None
                   else Some accessories_fallback))
         \<and> generate_description (generate_content (startup key backend ddgs loads dumps))
              prefs = description_fallback
         \<and> generate_accessories (generate_content (startup key backend ddgs loads dumps))
              outfit_desc g items = accessories_fallback"
proof -
  have down: "\<forall>r. generate_content (startup key backend ddgs loads dumps) r = GenRaises"
    using assms(2) by (simp add: startup_unconfigured)
  have d: "\<And>p. generate_description (generate_content (startup key backend ddgs loads dumps))
                 p = description_fallback"
    using down by (rule generate_description_down)
  have a: "\<And>q h is. generate_accessories
                 (generate_content (startup key backend ddgs loads dumps)) q h is
               = accessories_fallback"
    using down by (rule generate_accessories_down)
  show ?thesis
    unfolding recommend_page[of session u, OF assms(1)]
    using assms(2)
    by (simp add: startup_fields d a user_preferences_dict construct_query_prefs_dict)
qed

theorem recommend_without_credential_witness:
  "recommend (startup None (gen_says '' A red dress. '') nothing_found sample_loads (\<lambda>d. []))
     logged_in party_form_with_items
     = Inr (RecommendationPage
         \<lparr>query = ''red elegant dress for party female'',
          image_urls = replicate 5 get_placeholder_image,
          description = description_fallback,
          preferences = [],
          accessories_response = Some accessories_fallback\<rparr>)
   \<and> construct_query (user_preferences_of party_form_with_items)
       = Inr ''red elegant dress for party female''"
proof -
  let ?env = "startup None (gen_says '' A red dress. '') nothing_found sample_loads (\<lambda>d. [])"
  have a: "logged_in ''user'' = Some ''asha''" by (simp add: logged_in_def)
  have b: "\<not> key_present None" by (simp add: key_present_def)
  have d: "party_form_with_items ''accessory_items'' \<noteq> []"
    by (simp add: party_form_with_items_def)
  have e: "construct_query (user_preferences_of party_form_with_items)
             = Inr ''red elegant dress for party female''"
    by (simp add: user_preferences_dict construct_query_prefs_dict build_query_spec_def
        form_preferences_def party_form_with_items_def party_form_def form_get_def
        strip_def is_space_def)
  have f: "scrape_duckduckgo_images nothing_found ''red elegant dress for party female'' 5
             = replicate 5 get_placeholder_image"
    by (simp add: scrape_duckduckgo_images_def nothing_found_def)
  from recommend_without_credential[where session = logged_in and u = "''asha''"
      and key = None and backend = "gen_says '' A red dress. ''" and ddgs = nothing_found
      and loads = sample_loads and dumps = "\<lambda>d. []" and frm = party_form_with_items
      and prefs = Map.empty and outfit_desc = "[]" and g = PNone and items = "[]",
      OF a b]
  obtain page where p:
    "recommend ?env logged_in party_form_with_items = Inr (RecommendationPage page)"
    "Inr (query page) = construct_query (user_preferences_of party_form_with_items)"
    "image_urls page = scrape_duckduckgo_images nothing_found (query page) 5"
    "description page = description_fallback"
    "accessories_response page = Some accessories_fallback"
    using d by auto
  from p(2) e have q: "query page = ''red elegant dress for party female''" by simp
  have pr: "preferences page = []"
    using p(1) unfolding recommend_page[of logged_in "''asha''", OF a]
    by (auto simp: startup_fields)
  have "page = \<lparr>query = ''red elegant dress for party female'',
          image_urls = replicate 5 get_placeholder_image,
          description = description_fallback,
          preferences = [],
          accessories_response = Some accessories_fallback\<rparr>"
    using p(3,4,5) q pr f by simp
  with p(1) e show ?thesis by simp
qed

lemma deep_blob_loads: "sample_loads deep_blob = RaisesRecursionError"
proof -
  have len: "length deep_blob = 1000" by (simp add: deep_blob_def)
  have "\<And>s :: string. length s = 1000 \<Longrightarrow> s \<noteq> ''{}'' \<and> s \<noteq> ''[]''"
    by auto
  from this[OF len] have "deep_blob \<noteq> ''{}''" and "deep_blob \<noteq> ''[]''"
    by simp_all
  moreover have "list_all (\<lambda>c. c = CHR ''['') deep_blob"
    by (simp add: deep_blob_def list_all_iff)
  ultimately show ?thesis using len by (simp add: sample_loads_def)
qed

text \<open>
  What the handler recovers from. When the follow-up request has no preferences field
  (and the default document \<^verbatim>\<open>{}\<close> decodes to the empty dictionary), or
  when decoding the field raises \<^verbatim>\<open>JSONDecodeError\<close>, the accessory
  route goes on with the empty Preference Set: the outfit description is empty, the
  gender is "unisex", and the page holds the accessory text generated for them and the
  accessory image map of the requested items.
\<close>

lemma accessories_without_preferences:
  "(frm ''preferences'' = [] \<longrightarrow> json_loads env ''{}'' = Loaded (JsonDict Map.empty) \<longrightarrow>
      load_preferences env frm = Inr (JsonDict Map.empty)
      \<and> accessories env frm
          = Inr (AccessoriesPage
              \<lparr>outfit = [],
               accessories_text =
                 generate_accessories (generate_content env) [] (PStr ''unisex'')
                   (frm ''items''),
               accessory_images = fetch_accessory_images (ddgs_images env) (frm ''items'')\<rparr>))
   \<and> (json_loads env (form_get frm ''preferences'' ''{}'') = RaisesJSONDecodeError \<longrightarrow>
      load_preferences env frm = Inr (JsonDict Map.empty)
      \<and> accessories env frm
          = Inr (AccessoriesPage
              \<lparr>outfit = [],
               accessories_text =
                 generate_accessories (generate_content env) [] (PStr ''unisex'')
                   (frm ''items''),
               accessory_images = fetch_accessory_images (ddgs_images env) (frm ''items'')\<rparr>))"
proof -
  have q: "construct_query Map.empty = Inr []"
    by (simp add: construct_query_def dict_get_def join_values_def strip_def)
  have p: "load_preferences env frm = Inr (JsonDict Map.empty) \<Longrightarrow>
      accessories env frm
          = Inr (AccessoriesPage
              \<lparr>outfit = [],
               accessories_text =
                 generate_accessories (generate_content env) [] (PStr ''unisex'')
                   (frm ''items''),
               accessory_images = fetch_accessory_images (ddgs_images env) (frm ''items'')\<rparr>)"
    by (simp add: accessories_def q dict_get_def Let_def)
  have m: "frm ''preferences'' = [] \<Longrightarrow>
      json_loads env ''{}'' = Loaded (JsonDict Map.empty) \<Longrightarrow>
      load_preferences env frm = Inr (JsonDict Map.empty)"
    by (simp add: load_preferences_def form_get_def)
  have b: "json_loads env (form_get frm ''preferences'' ''{}'') = RaisesJSONDecodeError \<Longrightarrow>
      load_preferences env frm = Inr (JsonDict Map.empty)"
    by (simp add: load_preferences_def)
  from p m b show ?thesis by blast
qed

lemma accessories_recovers_sample:
  "accessories (sample_env None gen_down watch_found) items_only_form
     = Inr (AccessoriesPage
         \<lparr>outfit = [], accessories_text = accessories_fallback,
          accessory_images = [''watch'' \<mapsto> PStr ''https://img.example/watch.jpg'']\<rparr>)
   \<and> accessories (sample_env None gen_down watch_found) broken_prefs_form
     = Inr (AccessoriesPage
         \<lparr>outfit = [], accessories_text = accessories_fallback,
          accessory_images = [''watch'' \<mapsto> PStr ''https://img.example/watch.jpg'']\<rparr>)"
proof -
  have f: "fetch_accessory_images watch_found [''watch'']
             = [''watch'' \<mapsto> PStr ''https://img.example/watch.jpg'']"
    by (simp add: fetch_accessory_images_def lookup_item_def watch_found_def
        images_request_def image_record_def dict_get_def)
  have g: "generate_accessories gen_down [] (PStr ''unisex'') [''watch'']
             = accessories_fallback"
    by (simp add: generate_accessories_def gen_down_def)
  from accessories_without_preferences[of items_only_form
      "sample_env None gen_down watch_found"]
    accessories_without_preferences[of broken_prefs_form
      "sample_env None gen_down watch_found"]
    f g
  show ?thesis
    by (simp add: sample_env_def sample_loads_def items_only_form_def broken_prefs_form_def
        form_get_def)
qed

text \<open>
  C5, at inputs where the code departs from it. The handler replaces the preferences by
  the empty Preference Set when decoding raises \<^verbatim>\<open>JSONDecodeError\<close>, as
  it does for the truncated object of the third request below, and on nothing else. A
  preferences field of a thousand opening brackets makes the decoder raise
  \<^verbatim>\<open>RecursionError\<close>, and a field that holds an array decodes without
  error to a value with no \<^verbatim>\<open>get\<close>: both requests fail with that error
  at the request boundary instead of going on with the empty Preference Set.
\<close>

theorem accessories_unrecovered_preferences:
  "accessories (sample_env None gen_down watch_found) deep_prefs_form = Inl RecursionError
   \<and> accessories (sample_env None gen_down watch_found) list_prefs_form
       = Inl AttributeError
   \<and> accessories (sample_env None gen_down watch_found) broken_prefs_form
       = Inr (AccessoriesPage
           \<lparr>outfit = [], accessories_text = accessories_fallback,
            accessory_images = [''watch'' \<mapsto> PStr ''https://img.example/watch.jpg'']\<rparr>)"
proof -
  have l: "accessories (sample_env None gen_down watch_found) list_prefs_form
             = Inl AttributeError"
    by (simp add: accessories_def load_preferences_def sample_env_def sample_loads_def
        list_prefs_form_def form_get_def)
  have "json_loads (sample_env None gen_down watch_found)
          (form_get deep_prefs_form ''preferences'' ''{}'') = RaisesRecursionError"
    by (simp add: sample_env_def deep_prefs_form_def form_get_def deep_blob_loads)
  then have "accessories (sample_env None gen_down watch_found) deep_prefs_form
               = Inl RecursionError"
    by (simp add: accessories_def load_preferences_def)
  with l accessories_recovers_sample show ?thesis by simp
qed

end
